theory Spec2Isabelle
  imports Main
begin

section \<open>JavaScript values\<close>

text \<open>
  The edge functions and the browser client handle values produced by \<^verbatim>\<open>JSON.parse\<close>
  and by property access. They are modelled by one datatype: \<open>Undefined\<close> is what a
  missing property reads as, the other constructors are the JSON values. An object is
  an association list (the first binding of a key is the one a read returns), a number
  is kept as an integer, which is all the truthiness tests of this program look at.
  JavaScript strings are modelled as \<open>string\<close>, one \<open>char\<close> for each code unit.
\<close>

datatype js = Undefined | Null | Bool bool | Num int | Str string
  | Arr "js list" | Obj "(string \<times> js) list"

text \<open>\<^verbatim>\<open>if (v)\<close>, \<^verbatim>\<open>v && ...\<close>, \<^verbatim>\<open>!v\<close>: the falsy values are undefined, null, false, 0 and "".\<close>

fun truthy :: "js \<Rightarrow> bool" where
  "truthy Undefined = False"
| "truthy Null = False"
| "truthy (Bool b) = b"
| "truthy (Num n) = (n \<noteq> 0)"
| "truthy (Str s) = (s \<noteq> [])"
| "truthy (Arr xs) = True"
| "truthy (Obj kvs) = True"

text \<open>The operand tests of \<^verbatim>\<open>??\<close> and \<^verbatim>\<open>?.\<close>.\<close>

fun nullish :: "js \<Rightarrow> bool" where
  "nullish Undefined = True"
| "nullish Null = True"
| "nullish v = False"

text \<open>
  \<^verbatim>\<open>v.k\<close> on a value that is neither null nor undefined, for the property names this
  program reads (text, bucket, filePath, candidateName, jobId, userId, id, status, data,
  name, detail, markdown, parsed, structured): none of them is a property of a string,
  number, boolean or array, so only an object can have one.
\<close>

fun get_prop :: "js \<Rightarrow> string \<Rightarrow> js" where
  "get_prop (Obj kvs) k = (case map_of kvs k of Some v \<Rightarrow> v | None \<Rightarrow> Undefined)"
| "get_prop v k = Undefined"

text \<open>\<^verbatim>\<open>v?.k\<close>\<close>

definition opt_prop :: "js \<Rightarrow> string \<Rightarrow> js" where
  "opt_prop v k = (if nullish v then Undefined else get_prop v k)"

text \<open>\<^verbatim>\<open>a ?? b\<close>\<close>

definition coalesce :: "js \<Rightarrow> js \<Rightarrow> js" where
  "coalesce a b = (if nullish a then b else a)"

text \<open>\<^verbatim>\<open>s.includes(pat)\<close>: \<open>pat\<close> occurs in \<open>s\<close> as a contiguous substring.\<close>

fun starts_with :: "string \<Rightarrow> string \<Rightarrow> bool" where
  "starts_with s [] = True"
| "starts_with [] (c # cs) = False"
| "starts_with (x # xs) (c # cs) = (x = c \<and> starts_with xs cs)"

fun str_includes :: "string \<Rightarrow> string \<Rightarrow> bool" where
  "str_includes [] pat = (pat = [])"
| "str_includes (x # xs) pat = (starts_with (x # xs) pat \<or> str_includes xs pat)"

text \<open>
  The functions of the JavaScript platform that the program calls and that are not part
  of the repository are parameters of the model: \<open>JSON_parse\<close> is \<^verbatim>\<open>JSON.parse\<close> (and the
  body decoding of \<^verbatim>\<open>res.json()\<close>), with \<open>Inl m\<close> where it throws a SyntaxError of
  message \<open>m\<close>, \<open>JSON_stringify\<close> is \<^verbatim>\<open>JSON.stringify\<close>, \<open>encode\<close> is
  \<^verbatim>\<open>new TextEncoder().encode\<close>, and \<open>null_read\<close> is the message of the TypeError that a
  property read on null or undefined, or a call of something that is no function, throws.
\<close>

record platform =
  JSON_parse :: "string \<Rightarrow> string + js"
  JSON_stringify :: "js \<Rightarrow> string"
  encode :: "string \<Rightarrow> string"
  null_read :: string

text \<open>
  The test \<^verbatim>\<open>j && typeof j.markdown === "string"\<close> followed by \<^verbatim>\<open>return j.markdown\<close>,
  which the poll loop and the browser client both apply to a parsed value.
\<close>

definition markdown_of :: "js \<Rightarrow> string option" where
  "markdown_of j =
     (if truthy j then (case get_prop j ''markdown'' of Str m \<Rightarrow> Some m | _ \<Rightarrow> None)
      else None)"

section \<open>The network, the clock and the errors\<close>

record response =
  status :: nat
  body :: string

text \<open>\<^verbatim>\<open>res.ok\<close>: the status is in the range 200 to 299.\<close>

definition ok :: "response \<Rightarrow> bool" where
  "ok res = (200 \<le> status res \<and> status res \<le> 299)"

datatype fetched = Rejected string | Responded response

text \<open>
  What a function throws, each with its message. \<open>Error m\<close> is \<^verbatim>\<open>new Error(m)\<close>,
  \<open>SyntaxError\<close> is thrown by \<^verbatim>\<open>JSON.parse\<close> and \<^verbatim>\<open>res.json()\<close>, \<open>TypeError\<close> by a
  property read on null and by a call of a missing method, and \<open>FetchError\<close> is a
  rejected \<^verbatim>\<open>fetch\<close>.
\<close>

datatype error = Error string | SyntaxError string | TypeError string | FetchError string

datatype endpoint = Upload | UploadFile | CreateJob | JobStatus | JobResult | ResultMarkdown

text \<open>
  What the storage and database client returns: the \<^verbatim>\<open>{ data, error }\<close> of a download
  (\<open>dl_error\<close> is \<open>None\<close> for a null error, \<open>Some None\<close> for an error object
  without a message) and of an insert, and the row the handler inserts.
\<close>

record blob =
  blob_bytes :: string
  blob_type :: string

record downloaded =
  dl_data :: "blob option"
  dl_error :: "string option option"

record resume_row =
  candidate_name :: js
  job_id :: js
  created_by :: js
  file_bucket :: js
  file_path :: js
  raw_text :: js
  parsed :: js
  parser_version :: string
  row_status :: string

record inserted =
  ins_data :: js
  ins_error :: js

text \<open>
  The remote service, the storage, the database and the scheduler are the environment
  of a call. The client is sequential and deterministic, so whatever the remote service
  does is described by the outcome of the k-th request of the call, \<open>reply k\<close>, and
  the time that request takes, \<open>latency k\<close>; \<open>oversleep k\<close> is how much longer than
  asked the k-th timer takes to fire. Durations are natural numbers of milliseconds:
  the clock does not run backwards.
\<close>

record env =
  reply :: "nat \<Rightarrow> fetched"
  latency :: "nat \<Rightarrow> nat"
  oversleep :: "nat \<Rightarrow> nat"
  storage :: "js \<Rightarrow> js \<Rightarrow> downloaded"
  db_insert :: "resume_row \<Rightarrow> inserted"

text \<open>
  The module-level configuration: whether the \<^verbatim>\<open>supabase\<close> client is non-null, and the
  keys read from the process environment (\<open>llamaKey\<close> in the LlamaParse function,
  \<open>llamaApiKey\<close> and \<open>llamaAgentId\<close> in the LlamaExtract one). A key is missing
  when it is unset or empty.
\<close>

record config =
  supabase :: bool
  llamaKey :: "string option"
  llamaApiKey :: "string option"
  llamaAgentId :: "string option"

definition present :: "string option \<Rightarrow> bool" where
  "present k = (case k of Some s \<Rightarrow> s \<noteq> [] | None \<Rightarrow> False)"

text \<open>
  The state a call threads through: the reading of \<^verbatim>\<open>Date.now()\<close>, the requests issued
  so far with the time each one was started (latest first), the number of timers
  awaited and the argument lists of the calls of \<^verbatim>\<open>console.error\<close> (latest first).
\<close>

record world =
  now :: int
  queries :: "(endpoint \<times> int) list"
  sleeps :: nat
  console :: "js list list"

text \<open>\<^verbatim>\<open>await fetch(...)\<close> together with the read of the response body.\<close>

definition fetch :: "env \<Rightarrow> endpoint \<Rightarrow> world \<Rightarrow> fetched \<times> world" where
  "fetch E ep w =
     (reply E (length (queries w)),
      w\<lparr>now := now w + int (latency E (length (queries w))),
        queries := (ep, now w) # queries w\<rparr>)"

text \<open>\<^verbatim>\<open>await new Promise((r) => setTimeout(r, ms))\<close>\<close>

definition sleep :: "env \<Rightarrow> int \<Rightarrow> world \<Rightarrow> world" where
  "sleep E ms w =
     w\<lparr>now := now w + ms + int (oversleep E (sleeps w)), sleeps := Suc (sleeps w)\<rparr>"

section \<open>The LlamaParse edge function\<close>

definition POLL_INTERVAL_MS :: int where
  "POLL_INTERVAL_MS = 3000"

definition POLL_MAX_MS :: int where
  "POLL_MAX_MS = 60000"

text \<open>
  The body of the 400/404 branch up to the test: \<^verbatim>\<open>res.json().catch(() => ({}))\<close> and
  the message \<^verbatim>\<open>typeof detail?.detail === "string" ? detail.detail : ""\<close>.
\<close>

definition error_detail :: "platform \<Rightarrow> response \<Rightarrow> js" where
  "error_detail P res = (case JSON_parse P (body res) of Inr j \<Rightarrow> j | Inl m \<Rightarrow> Obj [])"

definition error_message :: "platform \<Rightarrow> response \<Rightarrow> string" where
  "error_message P res =
     (case opt_prop (error_detail P res) ''detail'' of Str m \<Rightarrow> m | _ \<Rightarrow> [])"

definition still_processing :: "string \<Rightarrow> bool" where
  "still_processing message =
     (str_includes message ''Job not completed yet'' \<or> str_includes message ''Result for Parsing Job'')"

text \<open>
  A response that the loop answers by waiting and asking again: the status is 400 or 404
  and the message names one of the two texts the service sends while it is working.
\<close>

definition pending_response :: "platform \<Rightarrow> response \<Rightarrow> bool" where
  "pending_response P res =
     ((status res = 400 \<or> status res = 404) \<and> still_processing (error_message P res))"

text \<open>The body of the \<^verbatim>\<open>res.ok\<close> branch: the markdown field of the parsed body, or the body.\<close>

definition ready_payload :: "platform \<Rightarrow> string \<Rightarrow> string" where
  "ready_payload P raw =
     (case JSON_parse P raw of
        Inr json \<Rightarrow> (case markdown_of json of Some m \<Rightarrow> m | None \<Rightarrow> raw)
      | Inl e \<Rightarrow> raw)"

text \<open>
  The \<^verbatim>\<open>while\<close> loop of \<^verbatim>\<open>pollLlamaParseMarkdown\<close>, with the \<^verbatim>\<open>throw\<close> after it as the
  else branch of the loop test.
\<close>

function poll_while :: "platform \<Rightarrow> env \<Rightarrow> int \<Rightarrow> world \<Rightarrow> (error + string) \<times> world" where
  "poll_while P E started w =
     (if now w - started < POLL_MAX_MS then
        (case fetch E ResultMarkdown w of
           (Rejected m, w1) \<Rightarrow> (Inl (FetchError m), w1)
         | (Responded res, w1) \<Rightarrow>
             if ok res then (Inr (ready_payload P (body res)), w1)
             else if status res = 400 \<or> status res = 404 then
               (if still_processing (error_message P res)
                then poll_while P E started (sleep E POLL_INTERVAL_MS w1)
                else (Inl (Error (''LlamaParse job error: '' @
                        JSON_stringify P (coalesce (error_detail P res) (Str ''unknown'')))), w1))
             else (Inl (Error (''LlamaParse poll failed: '' @ body res)), w1))
      else (Inl (Error ''LlamaParse job timed out''), w))"
  by pat_completeness auto
termination
  by (relation "measure (\<lambda>(P, E, started, w). nat (started + POLL_MAX_MS - now w))")
     (auto simp: fetch_def sleep_def POLL_INTERVAL_MS_def POLL_MAX_MS_def)

text \<open>
  \<^verbatim>\<open>pollLlamaParseMarkdown\<close>. The job identifier is part of the address of each request and
  of nothing else; what a request is answered with is given by the environment.
\<close>

definition pollLlamaParseMarkdown ::
    "platform \<Rightarrow> env \<Rightarrow> js \<Rightarrow> world \<Rightarrow> (error + string) \<times> world" where
  "pollLlamaParseMarkdown P E jobId w = poll_while P E (now w) w"

section \<open>Reading the request\<close>

text \<open>
  \<^verbatim>\<open>s.trim()\<close>, \<^verbatim>\<open>s.split(".")\<close> and \<^verbatim>\<open>s.toLowerCase()\<close> on code units below 256: the
  white space there is tab, line feed, vertical tab, form feed, carriage return, space
  and no-break space; the letters with a lower case are A to Z and the Latin-1 capitals.
\<close>

definition is_space :: "char \<Rightarrow> bool" where
  "is_space c = (of_char c \<in> {9, 10, 11, 12, 13, 32, 160 :: nat})"

definition trim :: "string \<Rightarrow> string" where
  "trim s = rev (dropWhile is_space (rev (dropWhile is_space s)))"

fun split_on :: "char \<Rightarrow> string \<Rightarrow> string list" where
  "split_on c [] = [[]]"
| "split_on c (x # xs) =
     (if x = c then [] # split_on c xs
      else (case split_on c xs of [] \<Rightarrow> [[x]] | p # ps \<Rightarrow> (x # p) # ps))"

definition lower_char :: "char \<Rightarrow> char" where
  "lower_char c =
     (let n = of_char c :: nat
      in if (65 \<le> n \<and> n \<le> 90) \<or> (192 \<le> n \<and> n \<le> 222 \<and> n \<noteq> 215) then char_of (n + 32) else c)"

definition toLowerCase :: "string \<Rightarrow> string" where
  "toLowerCase s = map lower_char s"

record resume_input =
  buffer :: string
  filename :: string
  contentType :: string

text \<open>
  \<^verbatim>\<open>inferExt\<close>. The argument is a field of the parsed request, so it may be any value;
  \<^verbatim>\<open>split\<close> exists on strings only.
\<close>

definition inferExt :: "platform \<Rightarrow> js \<Rightarrow> error + string option" where
  "inferExt P filePath =
     (if \<not> truthy filePath then Inr None
      else (case filePath of
              Str p \<Rightarrow>
                (let parts = split_on (CHR ''.'') p
                 in Inr (if length parts > 1 then Some (toLowerCase (last parts)) else None))
            | _ \<Rightarrow> Inl (TypeError (null_read P))))"

text \<open>
  \<^verbatim>\<open>loadResumeInput\<close>, the same text in both edge functions. The request body is what
  \<^verbatim>\<open>JSON.parse\<close> gave, cast to \<^verbatim>\<open>ResumeRequest\<close> without a check.
\<close>

definition loadResumeInput :: "platform \<Rightarrow> config \<Rightarrow> env \<Rightarrow> js \<Rightarrow> error + resume_input" where
  "loadResumeInput P C E req =
     (if nullish req then Inl (TypeError (null_read P))
      else
        (case (if truthy (get_prop req ''text'')
               then (case get_prop req ''text'' of
                       Str t \<Rightarrow> Inr (if length (trim t) > 0 then Some t else None)
                     | _ \<Rightarrow> Inl (TypeError (null_read P)))
               else Inr None) of
           Inl e \<Rightarrow> Inl e
         | Inr (Some t) \<Rightarrow>
             Inr \<lparr>buffer = encode P t, filename = ''resume.txt'', contentType = ''text/plain''\<rparr>
         | Inr None \<Rightarrow>
             if \<not> supabase C then Inl (Error ''Supabase client not initialized'')
             else if \<not> truthy (get_prop req ''bucket'') \<or> \<not> truthy (get_prop req ''filePath'')
             then Inl (Error ''Provide either `text` or (`bucket` and `filePath`)'')
             else
               (let d = storage E (get_prop req ''bucket'') (get_prop req ''filePath'')
                in case (dl_error d, dl_data d) of
                     (Some err, _) \<Rightarrow>
                       Inl (Error (''Unable to download file: '' @
                              (case err of Some m \<Rightarrow> m | None \<Rightarrow> ''unknown'')))
                   | (None, None) \<Rightarrow> Inl (Error (''Unable to download file: '' @ ''unknown''))
                   | (None, Some data) \<Rightarrow>
                       (case inferExt P (get_prop req ''filePath'') of
                          Inl e \<Rightarrow> Inl e
                        | Inr ext \<Rightarrow>
                            Inr \<lparr>buffer = blob_bytes data,
                                 filename = ''resume.'' @ (case ext of Some x \<Rightarrow> x | None \<Rightarrow> ''bin''),
                                 contentType = (if blob_type data \<noteq> [] then blob_type data
                                                else ''application/octet-stream'')\<rparr>))))"

section \<open>The LlamaParse edge function: submission\<close>

text \<open>
  \<^verbatim>\<open>uploadToLlamaParse\<close>. What is returned is \<^verbatim>\<open>json.id\<close> as it is read (the cast to
  string checks nothing): \<open>Undefined\<close> when the parsed body has no such property.
\<close>

definition uploadToLlamaParse ::
    "platform \<Rightarrow> config \<Rightarrow> env \<Rightarrow> resume_input \<Rightarrow> world \<Rightarrow> (error + js) \<times> world" where
  "uploadToLlamaParse P C E input w =
     (if \<not> present (llamaKey C) then (Inl (Error ''LLAMA_PARSE_API_KEY is missing''), w)
      else
        (case fetch E Upload w of
           (Rejected m, w1) \<Rightarrow> (Inl (FetchError m), w1)
         | (Responded res, w1) \<Rightarrow>
             if \<not> ok res then (Inl (Error (''LlamaParse upload failed: '' @ body res)), w1)
             else (case JSON_parse P (body res) of
                     Inl m \<Rightarrow> (Inl (SyntaxError m), w1)
                   | Inr json \<Rightarrow>
                       if nullish json then (Inl (TypeError (null_read P)), w1)
                       else (Inr (get_prop json ''id''), w1))))"

definition parseResumeWithLlamaParse ::
    "platform \<Rightarrow> config \<Rightarrow> env \<Rightarrow> resume_input \<Rightarrow> world \<Rightarrow> (error + js) \<times> world" where
  "parseResumeWithLlamaParse P C E input w =
     (case uploadToLlamaParse P C E input w of
        (Inl e, w1) \<Rightarrow> (Inl e, w1)
      | (Inr jobId, w1) \<Rightarrow>
          (case pollLlamaParseMarkdown P E jobId w1 of
             (Inl e, w2) \<Rightarrow> (Inl e, w2)
           | (Inr markdown, w2) \<Rightarrow>
               (Inr (Obj [(''markdown'', Str markdown), (''jobId'', jobId),
                          (''source'', Str ''llamaparse'')]), w2)))"

section \<open>The LlamaExtract edge function\<close>

definition PARSER_VERSION :: string where
  "PARSER_VERSION = ''llamaextract-http-v1''"

definition MAX_TEXT_STORE :: nat where
  "MAX_TEXT_STORE = 50000"

text \<open>
  The four request helpers have one shape: fetch, read the body as text, throw an Error
  with the first 400 characters of the body when the status is not ok, parse the body.
\<close>

definition request_json ::
    "platform \<Rightarrow> env \<Rightarrow> endpoint \<Rightarrow> string \<Rightarrow> world \<Rightarrow> (error + js) \<times> world" where
  "request_json P E ep label w =
     (case fetch E ep w of
        (Rejected m, w1) \<Rightarrow> (Inl (FetchError m), w1)
      | (Responded res, w1) \<Rightarrow>
          if \<not> ok res then (Inl (Error (label @ take 400 (body res))), w1)
          else (case JSON_parse P (body res) of
                  Inl m \<Rightarrow> (Inl (SyntaxError m), w1)
                | Inr json \<Rightarrow> (Inr json, w1)))"

text \<open>\<^verbatim>\<open>llamaUploadFile\<close> and \<^verbatim>\<open>llamaCreateJob\<close> return \<^verbatim>\<open>json?.id\<close>.\<close>

definition llamaUploadFile ::
    "platform \<Rightarrow> env \<Rightarrow> resume_input \<Rightarrow> world \<Rightarrow> (error + js) \<times> world" where
  "llamaUploadFile P E input w =
     (case request_json P E UploadFile ''LlamaExtract upload failed: '' w of
        (Inl e, w1) \<Rightarrow> (Inl e, w1)
      | (Inr json, w1) \<Rightarrow> (Inr (opt_prop json ''id''), w1))"

definition llamaCreateJob ::
    "platform \<Rightarrow> env \<Rightarrow> string \<Rightarrow> js \<Rightarrow> world \<Rightarrow> (error + js) \<times> world" where
  "llamaCreateJob P E agentId fileId w =
     (case request_json P E CreateJob ''LlamaExtract job create failed: '' w of
        (Inl e, w1) \<Rightarrow> (Inl e, w1)
      | (Inr json, w1) \<Rightarrow> (Inr (opt_prop json ''id''), w1))"

definition llamaPollJob :: "platform \<Rightarrow> env \<Rightarrow> js \<Rightarrow> world \<Rightarrow> (error + js) \<times> world" where
  "llamaPollJob P E jobId w = request_json P E JobStatus ''LlamaExtract job status failed: '' w"

definition llamaGetResult :: "platform \<Rightarrow> env \<Rightarrow> js \<Rightarrow> world \<Rightarrow> (error + js) \<times> world" where
  "llamaGetResult P E jobId w = request_json P E JobResult ''LlamaExtract result failed: '' w"

text \<open>
  The \<^verbatim>\<open>while\<close> loop of \<^verbatim>\<open>parseResumeWithLlamaExtract\<close>. It is left without an error
  (\<open>None\<close>) by the \<^verbatim>\<open>break\<close> on SUCCESS and by the loop test.
\<close>

function extract_while ::
    "platform \<Rightarrow> env \<Rightarrow> js \<Rightarrow> int \<Rightarrow> world \<Rightarrow> error option \<times> world" where
  "extract_while P E jobId deadline w =
     (if now w < deadline then
        (case llamaPollJob P E jobId w of
           (Inl e, w1) \<Rightarrow> (Some e, w1)
         | (Inr st, w1) \<Rightarrow>
             if opt_prop st ''status'' = Str ''SUCCESS'' then (None, w1)
             else if opt_prop st ''status'' = Str ''FAILED''
             then (Some (Error (''LlamaExtract job failed: '' @ JSON_stringify P st)), w1)
             else extract_while P E jobId deadline (sleep E 3000 w1))
      else (None, w))"
  by pat_completeness auto
termination
  by (relation "measure (\<lambda>(P, E, jobId, deadline, w). nat (deadline - now w))")
     (auto simp: llamaPollJob_def request_json_def fetch_def sleep_def
           split: fetched.splits if_splits sum.splits)

text \<open>
  A poll response on which that loop waits and asks again: a success status and a body
  that parses to a value whose \<^verbatim>\<open>status\<close> is neither SUCCESS nor FAILED.
\<close>

definition waiting_response :: "platform \<Rightarrow> response \<Rightarrow> bool" where
  "waiting_response P res =
     (ok res \<and> (case JSON_parse P (body res) of
                  Inl m \<Rightarrow> False
                | Inr st \<Rightarrow> opt_prop st ''status'' \<noteq> Str ''SUCCESS''
                          \<and> opt_prop st ''status'' \<noteq> Str ''FAILED''))"

definition parseResumeWithLlamaExtract ::
    "platform \<Rightarrow> config \<Rightarrow> env \<Rightarrow> resume_input \<Rightarrow> world \<Rightarrow> (error + js) \<times> world" where
  "parseResumeWithLlamaExtract P C E input w =
     (if \<not> present (llamaApiKey C) then (Inl (Error ''LLAMA_CLOUD_API_KEY missing''), w)
      else
        (case llamaAgentId C of
           None \<Rightarrow> (Inl (Error ''LLAMA_AGENT_ID missing (pre-create an extraction agent)''), w)
         | Some agentId \<Rightarrow>
             if agentId = [] then
               (Inl (Error ''LLAMA_AGENT_ID missing (pre-create an extraction agent)''), w)
             else
               (case llamaUploadFile P E input w of
                  (Inl e, w1) \<Rightarrow> (Inl e, w1)
                | (Inr fileId, w1) \<Rightarrow>
                    (case llamaCreateJob P E agentId fileId w1 of
                       (Inl e, w2) \<Rightarrow> (Inl e, w2)
                     | (Inr jobId, w2) \<Rightarrow>
                         (case extract_while P E jobId (now w2 + 60000) w2 of
                            (Some e, w3) \<Rightarrow> (Inl e, w3)
                          | (None, w3) \<Rightarrow>
                              (case llamaGetResult P E jobId w3 of
                                 (Inl e, w4) \<Rightarrow> (Inl e, w4)
                               | (Inr result, w4) \<Rightarrow>
                                   (Inr (Obj [(''structured'', coalesce (opt_prop result ''data'') Null),
                                              (''jobId'', jobId),
                                              (''source'', Str ''llamaextract'')]), w4)))))))"

record http_response =
  code :: nat
  content :: js

definition respond :: "nat \<Rightarrow> js \<Rightarrow> http_response" where
  "respond st b = \<lparr>code = st, content = b\<rparr>"

fun message :: "error \<Rightarrow> string" where
  "message (Error m) = m"
| "message (SyntaxError m) = m"
| "message (TypeError m) = m"
| "message (FetchError m) = m"

text \<open>
  The two replacements applied to the raw request body before it is parsed:
  \<^verbatim>\<open>/\\u(?![0-9a-fA-F]{4})/g\<close> by a backslash and \<^verbatim>\<open>uFFFD\<close>, then
  \<^verbatim>\<open>/\\(?!["\\/bfnrtu])/g\<close> by two backslashes.
\<close>

definition is_hex :: "char \<Rightarrow> bool" where
  "is_hex c = (c \<in> set ''0123456789abcdefABCDEF'')"

fun replace_bad_unicode :: "string \<Rightarrow> string" where
  "replace_bad_unicode (a # b # cs) =
     (if a = CHR 0x5C \<and> b = CHR ''u'' then
        (if 4 \<le> length cs \<and> list_all is_hex (take 4 cs)
         then a # b # replace_bad_unicode cs
         else CHR 0x5C # ''uFFFD'' @ replace_bad_unicode cs)
      else a # replace_bad_unicode (b # cs))"
| "replace_bad_unicode cs = cs"

fun escape_stray_backslashes :: "string \<Rightarrow> string" where
  "escape_stray_backslashes [] = []"
| "escape_stray_backslashes (a # cs) =
     (if a = CHR 0x5C \<and> (case cs of [] \<Rightarrow> True | b # bs \<Rightarrow> b \<notin> set (CHR 0x22 # CHR 0x5C # ''/bfnrtu''))
      then CHR 0x5C # CHR 0x5C # escape_stray_backslashes cs
      else a # escape_stray_backslashes cs)"

definition safeBody :: "string \<Rightarrow> string" where
  "safeBody rawBody = escape_stray_backslashes (replace_bad_unicode rawBody)"

text \<open>
  The column \<^verbatim>\<open>raw_text\<close> of the inserted row. \<open>rawText\<close> is \<^verbatim>\<open>body.text\<close> when that is
  truthy, which after \<^verbatim>\<open>loadResumeInput\<close> has returned means a string.
\<close>

definition stored_text :: "js \<Rightarrow> js" where
  "stored_text rawText =
     (case rawText of
        Str t \<Rightarrow> if t \<noteq> [] \<and> length t > MAX_TEXT_STORE then Str (take MAX_TEXT_STORE t) else Str t
      | v \<Rightarrow> coalesce v Null)"

text \<open>
  \<open>rawText\<close> is \<^verbatim>\<open>body.text ? body.text : undefined\<close>; \<open>inserted_row\<close> is the object
  given to \<^verbatim>\<open>insert\<close>.
\<close>

definition rawText_of :: "js \<Rightarrow> js" where
  "rawText_of req = (if truthy (get_prop req ''text'') then get_prop req ''text'' else Undefined)"

definition inserted_row :: "js \<Rightarrow> js \<Rightarrow> resume_row" where
  "inserted_row req result =
     \<lparr>candidate_name =
        coalesce (coalesce (get_prop req ''candidateName'')
                    (opt_prop (get_prop result ''structured'') ''name'')) Null,
      job_id = coalesce (get_prop req ''jobId'') Null,
      created_by = coalesce (get_prop req ''userId'') Null,
      file_bucket = coalesce (get_prop req ''bucket'') Null,
      file_path = coalesce (get_prop req ''filePath'') Null,
      raw_text = stored_text (rawText_of req),
      parsed = result,
      parser_version = PARSER_VERSION,
      row_status = ''parsed''\<rparr>"

text \<open>The body of the final \<^verbatim>\<open>respond(200, ...)\<close>.\<close>

definition success_body :: "js \<Rightarrow> js \<Rightarrow> js \<Rightarrow> js" where
  "success_body req result resumeId =
     Obj [(''parsed'', result), (''rawText'', rawText_of req), (''resumeId'', resumeId),
          (''jobId'', coalesce (get_prop result ''jobId'') Null),
          (''parserVersion'', Str PARSER_VERSION)]"

text \<open>The \<^verbatim>\<open>try\<close> block of the request handler after the body has been parsed.\<close>

definition handle_request ::
    "platform \<Rightarrow> config \<Rightarrow> env \<Rightarrow> js \<Rightarrow> world \<Rightarrow> (error + http_response) \<times> world" where
  "handle_request P C E req w =
     (case loadResumeInput P C E req of
        Inl e \<Rightarrow> (Inl e, w)
      | Inr resumeInput \<Rightarrow>
          (case parseResumeWithLlamaExtract P C E resumeInput w of
             (Inl e, w1) \<Rightarrow> (Inl e, w1)
           | (Inr result, w1) \<Rightarrow>
               if supabase C then
                 (let ins = db_insert E (inserted_row req result)
                  in if truthy (ins_error ins)
                     then (Inr (respond 200 (success_body req result Null)),
                           w1\<lparr>console := [Str ''Supabase insert error:'', ins_error ins] # console w1\<rparr>)
                     else (Inr (respond 200 (success_body req result
                                  (coalesce (opt_prop (ins_data ins) ''id'') Null))), w1))
               else (Inr (respond 200 (success_body req result Null)), w1)))"

text \<open>
  The handler given to \<^verbatim>\<open>Deno.serve\<close>, as a function of the request method and the
  text of the request body.
\<close>

definition serve ::
    "platform \<Rightarrow> config \<Rightarrow> env \<Rightarrow> string \<Rightarrow> string \<Rightarrow> world \<Rightarrow> http_response \<times> world" where
  "serve P C E method rawBody w =
     (if method = ''OPTIONS'' then (\<lparr>code = 200, content = Str ''ok''\<rparr>, w)
      else
        (case JSON_parse P (if safeBody rawBody = [] then ''{}'' else safeBody rawBody) of
           Inl m \<Rightarrow>
             (respond 400 (Obj [(''error'', Str ''Invalid JSON body (escape sequences/backslashes)'')]), w)
         | Inr req \<Rightarrow>
             (case handle_request P C E req w of
                (Inr r, w1) \<Rightarrow> (r, w1)
              | (Inl e, w1) \<Rightarrow>
                  (if str_includes (message e) ''unsupported Unicode escape sequence''
                   then respond 400 (Obj [(''error'',
                          Str (''Invalid JSON body (bad escape sequences/backslashes). '' @
                               ''Remove stray backslashes or ensure valid '' @
                               CHR 0x5C # ''uXXXX.''))])
                   else respond 400 (Obj [(''error'', Str (message e))]),
                   w1\<lparr>console := [Str (message e)] # console w1\<rparr>))))"

section \<open>The browser client: reading the markdown out of a result\<close>

text \<open>\<^verbatim>\<open>extractMarkdown\<close>; the value returned is a string or null.\<close>

definition extractMarkdown :: "platform \<Rightarrow> js \<Rightarrow> js" where
  "extractMarkdown P result =
     (let parsedField = opt_prop result ''parsed''
      in case (case parsedField of
                 Str s \<Rightarrow> (case JSON_parse P s of Inr parsedObj \<Rightarrow> markdown_of parsedObj | Inl e \<Rightarrow> None)
               | _ \<Rightarrow> None) of
           Some m \<Rightarrow> Str m
         | None \<Rightarrow>
             (case opt_prop parsedField ''markdown'' of
                Str maybe \<Rightarrow>
                  (case JSON_parse P maybe of
                     Inr inner \<Rightarrow> (case markdown_of inner of Some m \<Rightarrow> Str m | None \<Rightarrow> Str maybe)
                   | Inl e \<Rightarrow> Str maybe)
              | _ \<Rightarrow> Null))"

section \<open>A platform and an environment to run the model on\<close>

text \<open>
  \<open>flat_parse\<close> reads the two simplest JSON texts, \<^verbatim>\<open>{}\<close> and \<^verbatim>\<open>{"k":"v"}\<close> with no
  quote, backslash or control character in \<open>k\<close> and \<open>v\<close>, as \<^verbatim>\<open>JSON.parse\<close> does, and
  rejects every other text; \<open>flat_stringify\<close> writes these values back. They stand
  for the platform in the scenarios below, whose texts are of these two forms or are
  not JSON at all.
\<close>

definition plain :: "string \<Rightarrow> bool" where
  "plain s = list_all (\<lambda>c. c \<noteq> CHR 0x22 \<and> c \<noteq> CHR 0x5C \<and> 32 \<le> (of_char c :: nat)) s"

definition flat_parse :: "string \<Rightarrow> string + js" where
  "flat_parse s =
     (if s = ''{}'' then Inr (Obj [])
      else if starts_with s (CHR ''{'' # [CHR 0x22]) then
        (let r = drop 2 s;
             k = takeWhile (\<lambda>c. c \<noteq> CHR 0x22) r;
             r2 = drop (length k) r
         in if starts_with r2 (CHR 0x22 # CHR '':'' # [CHR 0x22]) then
              (let r3 = drop 3 r2;
                   v = takeWhile (\<lambda>c. c \<noteq> CHR 0x22) r3;
                   r4 = drop (length v) r3
               in if r4 = CHR 0x22 # ''}'' \<and> plain k \<and> plain v then Inr (Obj [(k, Str v)])
                  else Inl ''Unexpected token'')
            else Inl ''Unexpected token'')
      else Inl ''Unexpected token'')"

fun flat_stringify :: "js \<Rightarrow> string" where
  "flat_stringify (Str v) = CHR 0x22 # v @ [CHR 0x22]"
| "flat_stringify (Obj [(k, Str v)]) =
     CHR ''{'' # CHR 0x22 # k @ CHR 0x22 # CHR '':'' # CHR 0x22 # v @ CHR 0x22 # ''}''"
| "flat_stringify (Obj kvs) = ''{}''"
| "flat_stringify v = ''null''"

definition sample_platform :: platform where
  "sample_platform =
     \<lparr>JSON_parse = flat_parse, JSON_stringify = flat_stringify, encode = (\<lambda>s. s),
      null_read = ''Cannot read properties of null''\<rparr>"

text \<open>
  An environment that answers the requests of a call with the given responses, in
  order, each after 200 ms, and rejects any further request; timers fire on time, the
  storage has no file and the database refuses every insert.
\<close>

definition scripted :: "response list \<Rightarrow> env" where
  "scripted rs =
     \<lparr>reply = (\<lambda>k. if k < length rs then Responded (rs ! k) else Rejected ''connection refused''),
      latency = (\<lambda>k. 200),
      oversleep = (\<lambda>k. 0),
      storage = (\<lambda>b f. \<lparr>dl_data = None, dl_error = Some (Some ''Object not found'')\<rparr>),
      db_insert = (\<lambda>row. \<lparr>ins_data = Null,
                            ins_error = Obj [(''message'', Str ''permission denied'')]\<rparr>)\<rparr>"

text \<open>An environment in which every request gets the same response.\<close>

definition always :: "response \<Rightarrow> env" where
  "always r =
     \<lparr>reply = (\<lambda>k. Responded r),
      latency = (\<lambda>k. 200),
      oversleep = (\<lambda>k. 0),
      storage = (\<lambda>b f. \<lparr>dl_data = None, dl_error = Some (Some ''Object not found'')\<rparr>),
      db_insert = (\<lambda>row. \<lparr>ins_data = Null,
                            ins_error = Obj [(''message'', Str ''permission denied'')]\<rparr>)\<rparr>"

definition sample_config :: config where
  "sample_config =
     \<lparr>supabase = True, llamaKey = Some ''key'', llamaApiKey = Some ''key'',
      llamaAgentId = Some ''agent''\<rparr>"

definition start :: world where
  "start = \<lparr>now = 1000, queries = [], sleeps = 0, console = []\<rparr>"

definition sample_input :: resume_input where
  "sample_input = \<lparr>buffer = ''Jane Doe'', filename = ''resume.txt'', contentType = ''text/plain''\<rparr>"

section \<open>Facts about the model\<close>

declare poll_while.simps [simp del]
declare extract_while.simps [simp del]

lemma fetch_world [simp]:
  "now (snd (fetch E ep w)) = now w + int (latency E (length (queries w)))"
  "queries (snd (fetch E ep w)) = (ep, now w) # queries w"
  "sleeps (snd (fetch E ep w)) = sleeps w"
  "console (snd (fetch E ep w)) = console w"
  "fst (fetch E ep w) = reply E (length (queries w))"
  by (simp_all add: fetch_def)

lemma sleep_world [simp]:
  "now (sleep E ms w) = now w + ms + int (oversleep E (sleeps w))"
  "queries (sleep E ms w) = queries w"
  "sleeps (sleep E ms w) = Suc (sleeps w)"
  "console (sleep E ms w) = console w"
  by (simp_all add: sleep_def)

subsection \<open>One turn of the LlamaParse poll loop\<close>

lemma poll_while_expired:
  "\<not> now w - started < POLL_MAX_MS \<Longrightarrow>
   poll_while P E started w = (Inl (Error ''LlamaParse job timed out''), w)"
  by (simp add: poll_while.simps)

lemma poll_while_ready:
  "now w - started < POLL_MAX_MS \<Longrightarrow> reply E (length (queries w)) = Responded res \<Longrightarrow> ok res \<Longrightarrow>
   poll_while P E started w = (Inr (ready_payload P (body res)), snd (fetch E ResultMarkdown w))"
  by (subst poll_while.simps) (simp add: fetch_def)

lemma poll_while_pending:
  "now w - started < POLL_MAX_MS \<Longrightarrow> reply E (length (queries w)) = Responded res \<Longrightarrow>
   status res = 400 \<or> status res = 404 \<Longrightarrow> still_processing (error_message P res) \<Longrightarrow>
   poll_while P E started w =
     poll_while P E started (sleep E POLL_INTERVAL_MS (snd (fetch E ResultMarkdown w)))"
  by (subst poll_while.simps) (auto simp: fetch_def ok_def)

lemma poll_while_job_error:
  "now w - started < POLL_MAX_MS \<Longrightarrow> reply E (length (queries w)) = Responded res \<Longrightarrow>
   status res = 400 \<or> status res = 404 \<Longrightarrow> \<not> still_processing (error_message P res) \<Longrightarrow>
   poll_while P E started w =
     (Inl (Error (''LlamaParse job error: '' @
        JSON_stringify P (coalesce (error_detail P res) (Str ''unknown'')))),
      snd (fetch E ResultMarkdown w))"
  by (subst poll_while.simps) (auto simp: fetch_def ok_def)

lemma not_still_processing_empty: "\<not> still_processing []"
  by (simp add: still_processing_def)

lemma markdown_of_iff:
  "markdown_of j = Some m \<longleftrightarrow> (\<exists>kvs. j = Obj kvs \<and> map_of kvs ''markdown'' = Some (Str m))"
  by (cases j) (auto simp: markdown_of_def split: option.splits js.splits)

text \<open>
  When every response from the current one on is a pending one, the loop ends with the
  time-out, at or after the deadline, and every request it has added was started
  before the deadline and was followed by one wait. The induction is on the time left.
\<close>

lemma poll_while_all_pending:
  assumes "\<forall>k\<ge>length (queries w). \<exists>res. reply E k = Responded res \<and> pending_response P res"
  shows "\<exists>w' new. poll_while P E started w = (Inl (Error ''LlamaParse job timed out''), w')
           \<and> POLL_MAX_MS \<le> now w' - started
           \<and> queries w' = new @ queries w
           \<and> (\<forall>q\<in>set new. fst q = ResultMarkdown \<and> snd q - started < POLL_MAX_MS)
           \<and> sleeps w' = sleeps w + length new"
  using assms
proof (induction "nat (started + POLL_MAX_MS - now w)" arbitrary: w rule: less_induct)
  case less
  show ?case
  proof (cases "now w - started < POLL_MAX_MS")
    case False
    then show ?thesis by (simp add: poll_while_expired)
  next
    case True
    from less.prems obtain res where
      res: "reply E (length (queries w)) = Responded res" "pending_response P res"
      by blast
    define w1 where "w1 = sleep E POLL_INTERVAL_MS (snd (fetch E ResultMarkdown w))"
    have step: "poll_while P E started w = poll_while P E started w1"
      unfolding w1_def using True res by (intro poll_while_pending) (auto simp: pending_response_def)
    have q1: "queries w1 = (ResultMarkdown, now w) # queries w" and s1: "sleeps w1 = Suc (sleeps w)"
      by (simp_all add: w1_def)
    have "now w + POLL_INTERVAL_MS \<le> now w1" by (simp add: w1_def)
    with True have smaller: "nat (started + POLL_MAX_MS - now w1) < nat (started + POLL_MAX_MS - now w)"
      by (simp add: POLL_INTERVAL_MS_def)
    have later: "\<forall>k\<ge>length (queries w1). \<exists>res. reply E k = Responded res \<and> pending_response P res"
      using less.prems by (simp add: q1)
    from less.hyps [OF smaller later] obtain w' new where
      run: "poll_while P E started w1 = (Inl (Error ''LlamaParse job timed out''), w')"
        "POLL_MAX_MS \<le> now w' - started"
        "queries w' = new @ queries w1"
        "\<forall>q\<in>set new. fst q = ResultMarkdown \<and> snd q - started < POLL_MAX_MS"
        "sleeps w' = sleeps w1 + length new"
      by blast
    have "queries w' = (new @ [(ResultMarkdown, now w)]) @ queries w"
      using run(3) by (simp add: q1)
    moreover have "\<forall>q\<in>set (new @ [(ResultMarkdown, now w)]).
        fst q = ResultMarkdown \<and> snd q - started < POLL_MAX_MS"
      using run(4) True by auto
    moreover have "sleeps w' = sleeps w + length (new @ [(ResultMarkdown, now w)])"
      using run(5) by (simp add: s1)
    ultimately have "poll_while P E started w = (Inl (Error ''LlamaParse job timed out''), w')
           \<and> POLL_MAX_MS \<le> now w' - started
           \<and> queries w' = (new @ [(ResultMarkdown, now w)]) @ queries w
           \<and> (\<forall>q\<in>set (new @ [(ResultMarkdown, now w)]).
                 fst q = ResultMarkdown \<and> snd q - started < POLL_MAX_MS)
           \<and> sleeps w' = sleeps w + length (new @ [(ResultMarkdown, now w)])"
      using step run(1,2) by simp
    then show ?thesis by (intro exI)
  qed
qed

subsection \<open>The request helpers of the LlamaExtract function\<close>

lemma request_json_not_ok:
  "reply E (length (queries w)) = Responded res \<Longrightarrow> \<not> ok res \<Longrightarrow>
   request_json P E ep label w = (Inl (Error (label @ take 400 (body res))), snd (fetch E ep w))"
  by (simp add: request_json_def fetch_def)

lemma extract_while_not_ok:
  "now w < deadline \<Longrightarrow> reply E (length (queries w)) = Responded res \<Longrightarrow> \<not> ok res \<Longrightarrow>
   extract_while P E jobId deadline w =
     (Some (Error (''LlamaExtract job status failed: '' @ take 400 (body res))), snd (fetch E JobStatus w))"
  by (subst extract_while.simps) (simp add: llamaPollJob_def request_json_not_ok)

lemma request_json_ok:
  "reply E (length (queries w)) = Responded res \<Longrightarrow> ok res \<Longrightarrow>
   request_json P E ep label w =
     (case JSON_parse P (body res) of Inl m \<Rightarrow> Inl (SyntaxError m) | Inr json \<Rightarrow> Inr json,
      snd (fetch E ep w))"
  by (simp add: request_json_def fetch_def split: sum.splits)

lemma request_json_queries:
  "queries (snd (request_json P E ep label w)) = (ep, now w) # queries w"
  by (simp add: request_json_def fetch_def split: fetched.splits sum.splits)

lemma extract_while_waits:
  "now w < deadline \<Longrightarrow> reply E (length (queries w)) = Responded res \<Longrightarrow> ok res \<Longrightarrow>
   JSON_parse P (body res) = Inr st \<Longrightarrow>
   opt_prop st ''status'' \<noteq> Str ''SUCCESS'' \<Longrightarrow> opt_prop st ''status'' \<noteq> Str ''FAILED'' \<Longrightarrow>
   extract_while P E jobId deadline w =
     extract_while P E jobId deadline (sleep E 3000 (snd (fetch E JobStatus w)))"
  by (subst extract_while.simps) (simp add: llamaPollJob_def request_json_ok)

lemma extract_while_expired:
  "\<not> now w < deadline \<Longrightarrow> extract_while P E jobId deadline w = (None, w)"
  by (simp add: extract_while.simps)

text \<open>
  When the job stays in a state that is neither SUCCESS nor FAILED, the loop of
  \<^verbatim>\<open>parseResumeWithLlamaExtract\<close> is left by its test, without an error, at or after the
  deadline, and the request for the result that follows is started then.
\<close>

lemma extract_while_all_waiting:
  assumes "\<forall>k\<ge>length (queries w). \<exists>res. reply E k = Responded res \<and> waiting_response P res"
  shows "\<exists>w'. extract_while P E jobId deadline w = (None, w') \<and> deadline \<le> now w'
           \<and> queries (snd (llamaGetResult P E jobId w')) = (JobResult, now w') # queries w'"
  using assms
proof (induction "nat (deadline - now w)" arbitrary: w rule: less_induct)
  case less
  show ?case
  proof (cases "now w < deadline")
    case False
    then show ?thesis by (simp add: extract_while_expired llamaGetResult_def request_json_queries)
  next
    case True
    from less.prems obtain res where
      res: "reply E (length (queries w)) = Responded res" "waiting_response P res"
      by blast
    then obtain st where st: "ok res" "JSON_parse P (body res) = Inr st"
        "opt_prop st ''status'' \<noteq> Str ''SUCCESS''" "opt_prop st ''status'' \<noteq> Str ''FAILED''"
      by (auto simp: waiting_response_def split: sum.splits)
    define w1 where "w1 = sleep E 3000 (snd (fetch E JobStatus w))"
    have step: "extract_while P E jobId deadline w = extract_while P E jobId deadline w1"
      unfolding w1_def using True res(1) st by (rule extract_while_waits)
    have "now w + 3000 \<le> now w1" by (simp add: w1_def)
    with True have smaller: "nat (deadline - now w1) < nat (deadline - now w)" by simp
    have later: "\<forall>k\<ge>length (queries w1). \<exists>res. reply E k = Responded res \<and> waiting_response P res"
      using less.prems by (simp add: w1_def)
    from less.hyps [OF smaller later] show ?thesis by (simp add: step)
  qed
qed

subsection \<open>Reading values\<close>

lemma markdown_of_none_iff:
  "markdown_of j = None \<longleftrightarrow> (\<nexists>kvs m. j = Obj kvs \<and> map_of kvs ''markdown'' = Some (Str m))"
proof (cases "markdown_of j")
  case None
  then show ?thesis using markdown_of_iff [of j] by auto
next
  case (Some a)
  then show ?thesis using markdown_of_iff [of j a] by auto
qed

text \<open>What the success branch of the poll loop returns, in terms of the parsed body.\<close>

lemma ready_payload_cases:
  "(\<forall>kvs m. JSON_parse P raw = Inr (Obj kvs) \<and> map_of kvs ''markdown'' = Some (Str m) \<longrightarrow>
      ready_payload P raw = m)
 \<and> ((\<nexists>kvs m. JSON_parse P raw = Inr (Obj kvs) \<and> map_of kvs ''markdown'' = Some (Str m)) \<longrightarrow>
      ready_payload P raw = raw)"
proof (cases "JSON_parse P raw")
  case (Inl e)
  then show ?thesis by (simp add: ready_payload_def)
next
  case (Inr j)
  show ?thesis
  proof (cases "markdown_of j")
    case None
    then have "\<nexists>kvs m. j = Obj kvs \<and> map_of kvs ''markdown'' = Some (Str m)"
      by (simp add: markdown_of_none_iff)
    with Inr None show ?thesis by (auto simp: ready_payload_def)
  next
    case (Some m)
    then obtain kvs where "j = Obj kvs" "map_of kvs ''markdown'' = Some (Str m)"
      using markdown_of_iff [of j m] by auto
    with Inr Some show ?thesis by (auto simp: ready_payload_def)
  qed
qed

text \<open>A job error of the poll loop is never its time-out error.\<close>

lemma job_error_not_timeout:
  "Error (''LlamaParse job error: '' @ x) \<noteq> Error ''LlamaParse job timed out''"
  by simp

text \<open>A string trims to the empty string exactly when it consists of white space.\<close>

lemma trim_empty_iff: "trim t = [] \<longleftrightarrow> (\<forall>c\<in>set t. is_space c)"
proof -
  have a: "dropWhile Q xs = [] \<longleftrightarrow> (\<forall>x\<in>set xs. Q x)" for Q :: "char \<Rightarrow> bool" and xs
    by (simp add: dropWhile_eq_Nil_conv)
  have b: "(\<forall>x\<in>set (dropWhile Q xs). Q x) \<longleftrightarrow> (\<forall>x\<in>set xs. Q x)" for Q :: "char \<Rightarrow> bool" and xs
    by (induction xs) auto
  show ?thesis by (simp add: trim_def a b)
qed

subsection \<open>The sample platform on the texts of the scenarios\<close>

lemma sample_platform_sel:
  "JSON_parse sample_platform = flat_parse"
  "JSON_stringify sample_platform = flat_stringify"
  "encode sample_platform = (\<lambda>s. s)"
  "null_read sample_platform = ''Cannot read properties of null''"
  by (simp_all add: sample_platform_def)

lemma flat_parse_examples:
  \<open>flat_parse ''{"detail":"bad input"}'' = Inr (Obj [(''detail'', Str ''bad input'')])\<close>
  \<open>flat_parse ''{"detail":"Result for Parsing Job J1 not found"}'' =
     Inr (Obj [(''detail'', Str ''Result for Parsing Job J1 not found'')])\<close>
  \<open>flat_parse ''{"detail":"Job not completed yet"}'' =
     Inr (Obj [(''detail'', Str ''Job not completed yet'')])\<close>
  \<open>flat_parse ''{"markdown":"Hello"}'' = Inr (Obj [(''markdown'', Str ''Hello'')])\<close>
  \<open>flat_parse ''# Jane Doe'' = Inl ''Unexpected token''\<close>
  \<open>flat_parse ''<html>Bad Gateway</html>'' = Inl ''Unexpected token''\<close>
  \<open>flat_parse ''{}'' = Inr (Obj [])\<close>
  \<open>flat_parse ''{"id":"F1"}'' = Inr (Obj [(''id'', Str ''F1'')])\<close>
  \<open>flat_parse ''{"id":"J1"}'' = Inr (Obj [(''id'', Str ''J1'')])\<close>
  \<open>flat_parse ''{"status":"SUCCESS"}'' = Inr (Obj [(''status'', Str ''SUCCESS'')])\<close>
  \<open>flat_parse ''{"data":"Jane Doe"}'' = Inr (Obj [(''data'', Str ''Jane Doe'')])\<close>
  \<open>flat_parse ''{"text":"Jane Doe"}'' = Inr (Obj [(''text'', Str ''Jane Doe'')])\<close>
  by (simp_all add: flat_parse_def plain_def)

lemma pending_sample:
  \<open>pending_response sample_platform
     \<lparr>status = 404, body = ''{"detail":"Result for Parsing Job J1 not found"}''\<rparr>\<close>
  \<open>pending_response sample_platform \<lparr>status = 404, body = ''{"detail":"Job not completed yet"}''\<rparr>\<close>
  by (simp_all add: pending_response_def error_message_def error_detail_def opt_prop_def
        still_processing_def sample_platform_sel flat_parse_examples)

lemma is_space_examples: "is_space (CHR '' '')" "\<not> is_space (CHR ''J'')"
  by (simp_all add: is_space_def)

lemma scripted_insert:
  "ins_error (db_insert (scripted rs) row) = Obj [(''message'', Str ''permission denied'')]"
  by (simp add: scripted_def)

lemma sample_config_sel:
  "supabase sample_config"
  "llamaKey sample_config = Some ''key''"
  "llamaApiKey sample_config = Some ''key''"
  "llamaAgentId sample_config = Some ''agent''"
  by (simp_all add: sample_config_def)

section \<open>The poll loop\<close>

text \<open>
  Claim C1, as amended. In \<^verbatim>\<open>pollLlamaParseMarkdown\<close>, when every poll response is a pending
  one (status 400 or 404 with one of the two still-processing messages), the loop
  polls at least once, ends with the error "LlamaParse job timed out" no earlier than
  60000 ms after it began, returns neither a job error nor a payload, has started every
  one of its requests before the deadline, and has waited once after each. In the
  LlamaExtract function the same responses are not pending: the first poll of its loop
  throws "LlamaExtract job status failed" with the first 400 characters of the body.
\<close>

theorem all_pending_times_out:
  assumes "\<forall>k\<ge>length (queries w). \<exists>res. reply E k = Responded res \<and> pending_response P res"
  shows "(\<exists>w' new. pollLlamaParseMarkdown P E jobId w = (Inl (Error ''LlamaParse job timed out''), w')
            \<and> now w + POLL_MAX_MS \<le> now w'
            \<and> new \<noteq> []
            \<and> queries w' = new @ queries w
            \<and> (\<forall>q\<in>set new. fst q = ResultMarkdown \<and> snd q < now w + POLL_MAX_MS)
            \<and> sleeps w' = sleeps w + length new)
       \<and> (\<forall>job deadline. now w < deadline \<longrightarrow>
            (\<exists>res. reply E (length (queries w)) = Responded res \<and>
               extract_while P E job deadline w =
                 (Some (Error (''LlamaExtract job status failed: '' @ take 400 (body res))),
                  snd (fetch E JobStatus w))))"
proof -
  from poll_while_all_pending [OF assms, of "now w"] obtain w' new where
    run: "poll_while P E (now w) w = (Inl (Error ''LlamaParse job timed out''), w')"
      "POLL_MAX_MS \<le> now w' - now w"
      "queries w' = new @ queries w"
      "\<forall>q\<in>set new. fst q = ResultMarkdown \<and> snd q - now w < POLL_MAX_MS"
      "sleeps w' = sleeps w + length new"
    by blast
  have "new \<noteq> []"
  proof
    assume "new = []"
    from assms obtain res where
      res: "reply E (length (queries w)) = Responded res" "pending_response P res"
      by blast
    have "poll_while P E (now w) w =
        poll_while P E (now w) (sleep E POLL_INTERVAL_MS (snd (fetch E ResultMarkdown w)))"
      using res by (intro poll_while_pending) (auto simp: pending_response_def POLL_MAX_MS_def)
    moreover
    have "\<forall>k\<ge>length (queries (sleep E POLL_INTERVAL_MS (snd (fetch E ResultMarkdown w)))).
        \<exists>res. reply E k = Responded res \<and> pending_response P res"
      using assms by simp
    from poll_while_all_pending [OF this, of "now w"] obtain w2 new2 where
      "poll_while P E (now w) (sleep E POLL_INTERVAL_MS (snd (fetch E ResultMarkdown w))) =
         (Inl (Error ''LlamaParse job timed out''), w2)"
      "queries w2 = new2 @ queries (sleep E POLL_INTERVAL_MS (snd (fetch E ResultMarkdown w)))"
      by blast
    ultimately have "queries w' = new2 @ (ResultMarkdown, now w) # queries w"
      using run(1) by simp
    with run(3) \<open>new = []\<close> show False by simp
  qed
  moreover have "now w + POLL_MAX_MS \<le> now w'" using run(2) by simp
  moreover have "\<forall>q\<in>set new. fst q = ResultMarkdown \<and> snd q < now w + POLL_MAX_MS"
    using run(4) by auto
  ultimately have first: "\<exists>w' new. pollLlamaParseMarkdown P E jobId w = (Inl (Error ''LlamaParse job timed out''), w')
            \<and> now w + POLL_MAX_MS \<le> now w'
            \<and> new \<noteq> []
            \<and> queries w' = new @ queries w
            \<and> (\<forall>q\<in>set new. fst q = ResultMarkdown \<and> snd q < now w + POLL_MAX_MS)
            \<and> sleeps w' = sleeps w + length new"
    using run(1,3,5) unfolding pollLlamaParseMarkdown_def by blast
  have second: "\<forall>job deadline. now w < deadline \<longrightarrow>
            (\<exists>res. reply E (length (queries w)) = Responded res \<and>
               extract_while P E job deadline w =
                 (Some (Error (''LlamaExtract job status failed: '' @ take 400 (body res))),
                  snd (fetch E JobStatus w)))"
  proof (intro allI impI)
    fix job :: js and deadline assume d: "now w < deadline"
    from assms obtain res where
      res: "reply E (length (queries w)) = Responded res" "pending_response P res"
      by blast
    then have "\<not> ok res" by (auto simp: pending_response_def ok_def)
    with d res(1) show "\<exists>res. reply E (length (queries w)) = Responded res \<and>
               extract_while P E job deadline w =
                 (Some (Error (''LlamaExtract job status failed: '' @ take 400 (body res))),
                  snd (fetch E JobStatus w))"
      using extract_while_not_ok by blast
  qed
  from first second show ?thesis by blast
qed

text \<open>
  The theorem at a service that answers every poll with 404 and "Result for Parsing Job
  J1 not found": the call that begins at 1000 ms ends with the time-out.
\<close>

theorem all_pending_witness:
  \<open>fst (pollLlamaParseMarkdown sample_platform
          (always \<lparr>status = 404, body = ''{"detail":"Result for Parsing Job J1 not found"}''\<rparr>)
          (Str ''J1'') start)
     = Inl (Error ''LlamaParse job timed out'')\<close>
  using all_pending_times_out
          [of start \<open>always \<lparr>status = 404, body = ''{"detail":"Result for Parsing Job J1 not found"}''\<rparr>\<close>
              sample_platform \<open>Str ''J1''\<close>]
        pending_sample(1)
  by (auto simp: always_def)

text \<open>
  Claim C1 as it was stated fails on the loop of \<^verbatim>\<open>parseResumeWithLlamaExtract\<close>: after
  an upload and a job creation that succeed, a first poll response of status 404 with
  the message "Job not completed yet", a pending response in the sense of the claim,
  ends the call with a permanent error and not with a time-out.
\<close>

theorem llamaextract_404_counterexample:
  \<open>pending_response sample_platform \<lparr>status = 404, body = ''{"detail":"Job not completed yet"}''\<rparr>
   \<and> fst (parseResumeWithLlamaExtract sample_platform sample_config
            (scripted [\<lparr>status = 200, body = ''{"id":"F1"}''\<rparr>,
                       \<lparr>status = 200, body = ''{"id":"J1"}''\<rparr>,
                       \<lparr>status = 404, body = ''{"detail":"Job not completed yet"}''\<rparr>])
            sample_input start)
     = Inl (Error ''LlamaExtract job status failed: {"detail":"Job not completed yet"}'')\<close>
  by (simp add: pending_sample parseResumeWithLlamaExtract_def sample_config_def present_def
        llamaUploadFile_def llamaCreateJob_def llamaPollJob_def request_json_def fetch_def
        scripted_def start_def ok_def sample_platform_sel flat_parse_examples opt_prop_def
        extract_while.simps)

text \<open>
  Claim C2. For a poll response of status 400 or 404, received before the deadline: if
  its message contains "Job not completed yet" or "Result for Parsing Job", the loop
  waits once, for at least the poll interval, and goes on from there; if it does not,
  the loop ends at once with the permanent error "LlamaParse job error: " followed by
  the JSON text of the parsed body (of the empty object when the body does not parse),
  which is not the time-out error, this request being the last one and no wait having
  been made.
\<close>

theorem not_ready_status_pending_or_permanent:
  assumes "now w - started < POLL_MAX_MS"
    and "reply E (length (queries w)) = Responded res"
    and "status res = 400 \<or> status res = 404"
  shows "(still_processing (error_message P res) \<longrightarrow>
            poll_while P E started w =
              poll_while P E started (sleep E POLL_INTERVAL_MS (snd (fetch E ResultMarkdown w)))
          \<and> sleeps (sleep E POLL_INTERVAL_MS (snd (fetch E ResultMarkdown w))) = Suc (sleeps w)
          \<and> now w + POLL_INTERVAL_MS \<le> now (sleep E POLL_INTERVAL_MS (snd (fetch E ResultMarkdown w))))
       \<and> (\<not> still_processing (error_message P res) \<longrightarrow>
            poll_while P E started w =
              (Inl (Error (''LlamaParse job error: '' @
                 JSON_stringify P (coalesce (error_detail P res) (Str ''unknown'')))),
               snd (fetch E ResultMarkdown w))
          \<and> fst (poll_while P E started w) \<noteq> Inl (Error ''LlamaParse job timed out'')
          \<and> (\<forall>j. JSON_parse P (body res) = Inr j \<longrightarrow> error_detail P res = j)
          \<and> ((\<exists>m. JSON_parse P (body res) = Inl m) \<longrightarrow> error_detail P res = Obj [])
          \<and> queries (snd (poll_while P E started w)) = (ResultMarkdown, now w) # queries w
          \<and> sleeps (snd (poll_while P E started w)) = sleeps w)"
proof -
  have pending: "poll_while P E started w =
      poll_while P E started (sleep E POLL_INTERVAL_MS (snd (fetch E ResultMarkdown w)))"
    if "still_processing (error_message P res)"
    using assms that by (rule poll_while_pending)
  have waited: "sleeps (sleep E POLL_INTERVAL_MS (snd (fetch E ResultMarkdown w))) = Suc (sleeps w)"
    "now w + POLL_INTERVAL_MS \<le> now (sleep E POLL_INTERVAL_MS (snd (fetch E ResultMarkdown w)))"
    by simp_all
  have run: "poll_while P E started w =
      (Inl (Error (''LlamaParse job error: '' @
         JSON_stringify P (coalesce (error_detail P res) (Str ''unknown'')))),
       snd (fetch E ResultMarkdown w))"
    if "\<not> still_processing (error_message P res)"
    using assms that by (rule poll_while_job_error)
  have distinct: "fst (poll_while P E started w) \<noteq> Inl (Error ''LlamaParse job timed out'')"
    if "\<not> still_processing (error_message P res)"
    unfolding run [OF that] using job_error_not_timeout by simp
  have after: "queries (snd (poll_while P E started w)) = (ResultMarkdown, now w) # queries w"
    "sleeps (snd (poll_while P E started w)) = sleeps w"
    if "\<not> still_processing (error_message P res)"
    by (simp_all add: run [OF that])
  have detail: "\<forall>j. JSON_parse P (body res) = Inr j \<longrightarrow> error_detail P res = j"
    "(\<exists>m. JSON_parse P (body res) = Inl m) \<longrightarrow> error_detail P res = Obj []"
    by (auto simp: error_detail_def)
  show ?thesis
    using pending waited run distinct after detail by blast
qed

text \<open>
  The theorem at a response 400 with the message "bad input", which ends the loop with
  the job error carrying that body, and at a response 404 with "Result for Parsing Job
  J1 not found", after which the loop goes on from 4200 ms with one wait made.
\<close>

theorem not_ready_status_witness:
  \<open>poll_while sample_platform (scripted [\<lparr>status = 400, body = ''{"detail":"bad input"}''\<rparr>]) 1000 start
     = (Inl (Error ''LlamaParse job error: {"detail":"bad input"}''),
        \<lparr>now = 1200, queries = [(ResultMarkdown, 1000)], sleeps = 0, console = []\<rparr>)
    \<and> poll_while sample_platform
         (scripted [\<lparr>status = 404, body = ''{"detail":"Result for Parsing Job J1 not found"}''\<rparr>]) 1000 start
       = poll_while sample_platform
         (scripted [\<lparr>status = 404, body = ''{"detail":"Result for Parsing Job J1 not found"}''\<rparr>]) 1000
         \<lparr>now = 4200, queries = [(ResultMarkdown, 1000)], sleeps = 1, console = []\<rparr>\<close>
  using not_ready_status_pending_or_permanent
          [of start 1000 \<open>scripted [\<lparr>status = 400, body = ''{"detail":"bad input"}''\<rparr>]\<close>
              \<open>\<lparr>status = 400, body = ''{"detail":"bad input"}''\<rparr>\<close> sample_platform]
        not_ready_status_pending_or_permanent
          [of start 1000
              \<open>scripted [\<lparr>status = 404, body = ''{"detail":"Result for Parsing Job J1 not found"}''\<rparr>]\<close>
              \<open>\<lparr>status = 404, body = ''{"detail":"Result for Parsing Job J1 not found"}''\<rparr>\<close> sample_platform]
  by (simp add: start_def scripted_def sample_platform_sel POLL_MAX_MS_def POLL_INTERVAL_MS_def
        error_message_def error_detail_def opt_prop_def still_processing_def flat_parse_examples
        fetch_def sleep_def coalesce_def)

text \<open>
  Claim C3. For a poll response with a success status, received before the deadline: if
  the body parses to an object whose \<^verbatim>\<open>markdown\<close> property is a string, the loop returns
  that string; in every other case, a body that is not JSON included, it returns the
  body itself.
\<close>

theorem success_status_payload:
  assumes "now w - started < POLL_MAX_MS"
    and "reply E (length (queries w)) = Responded res"
    and "ok res"
  shows "(\<forall>kvs m. JSON_parse P (body res) = Inr (Obj kvs) \<and> map_of kvs ''markdown'' = Some (Str m) \<longrightarrow>
            fst (poll_while P E started w) = Inr m)
       \<and> ((\<nexists>kvs m. JSON_parse P (body res) = Inr (Obj kvs) \<and> map_of kvs ''markdown'' = Some (Str m)) \<longrightarrow>
            fst (poll_while P E started w) = Inr (body res))"
proof -
  have run: "fst (poll_while P E started w) = Inr (ready_payload P (body res))"
    using assms by (simp add: poll_while_ready)
  show ?thesis
  proof (cases "JSON_parse P (body res)")
    case (Inl e)
    then show ?thesis by (simp add: run ready_payload_def)
  next
    case (Inr j)
    show ?thesis
    proof (cases "markdown_of j")
      case None
      then have "\<nexists>kvs m. j = Obj kvs \<and> map_of kvs ''markdown'' = Some (Str m)"
        using markdown_of_iff [of j] by auto
      with Inr None show ?thesis by (auto simp: run ready_payload_def)
    next
      case (Some m)
      then obtain kvs where "j = Obj kvs" "map_of kvs ''markdown'' = Some (Str m)"
        using markdown_of_iff [of j m] by auto
      with Inr Some show ?thesis by (auto simp: run ready_payload_def)
    qed
  qed
qed

theorem success_status_witness:
  \<open>fst (poll_while sample_platform (scripted [\<lparr>status = 200, body = ''{"markdown":"Hello"}''\<rparr>]) 1000 start)
     = Inr ''Hello''
   \<and> fst (poll_while sample_platform (scripted [\<lparr>status = 200, body = ''# Jane Doe''\<rparr>]) 1000 start)
     = Inr ''# Jane Doe''\<close>
  using success_status_payload
          [of start 1000 \<open>scripted [\<lparr>status = 200, body = ''{"markdown":"Hello"}''\<rparr>]\<close>
              \<open>\<lparr>status = 200, body = ''{"markdown":"Hello"}''\<rparr>\<close> sample_platform]
        success_status_payload
          [of start 1000 \<open>scripted [\<lparr>status = 200, body = ''# Jane Doe''\<rparr>]\<close>
              \<open>\<lparr>status = 200, body = ''# Jane Doe''\<rparr>\<close> sample_platform]
  by (simp add: start_def scripted_def sample_platform_sel POLL_MAX_MS_def ok_def flat_parse_examples)

text \<open>
  Claim C4. When the first response that \<^verbatim>\<open>pollLlamaParseMarkdown\<close> receives has a success
  status, the call returns the payload of that response, the string under \<^verbatim>\<open>markdown\<close> of
  the parsed body when there is one and the body itself otherwise, after exactly one
  request, started when the call began, and without a wait.
\<close>

theorem first_response_ready_one_query:
  assumes "reply E (length (queries w)) = Responded res"
    and "ok res"
  shows "pollLlamaParseMarkdown P E jobId w =
           (Inr (ready_payload P (body res)), snd (fetch E ResultMarkdown w))
       \<and> (\<forall>kvs m. JSON_parse P (body res) = Inr (Obj kvs) \<and> map_of kvs ''markdown'' = Some (Str m) \<longrightarrow>
            fst (pollLlamaParseMarkdown P E jobId w) = Inr m)
       \<and> ((\<nexists>kvs m. JSON_parse P (body res) = Inr (Obj kvs) \<and> map_of kvs ''markdown'' = Some (Str m)) \<longrightarrow>
            fst (pollLlamaParseMarkdown P E jobId w) = Inr (body res))
       \<and> queries (snd (pollLlamaParseMarkdown P E jobId w)) = (ResultMarkdown, now w) # queries w
       \<and> sleeps (snd (pollLlamaParseMarkdown P E jobId w)) = sleeps w
       \<and> now (snd (pollLlamaParseMarkdown P E jobId w)) = now w + int (latency E (length (queries w)))"
proof -
  have run: "pollLlamaParseMarkdown P E jobId w =
      (Inr (ready_payload P (body res)), snd (fetch E ResultMarkdown w))"
    using assms poll_while_ready [of w "now w" E res P]
    by (simp add: pollLlamaParseMarkdown_def POLL_MAX_MS_def)
  have found: "fst (pollLlamaParseMarkdown P E jobId w) = Inr m"
    if "JSON_parse P (body res) = Inr (Obj kvs) \<and> map_of kvs ''markdown'' = Some (Str m)" for kvs m
    using ready_payload_cases [of P "body res"] that by (simp add: run)
  have fallback: "fst (pollLlamaParseMarkdown P E jobId w) = Inr (body res)"
    if "\<nexists>kvs m. JSON_parse P (body res) = Inr (Obj kvs) \<and> map_of kvs ''markdown'' = Some (Str m)"
    using ready_payload_cases [of P "body res"] that by (simp add: run)
  have world: "queries (snd (pollLlamaParseMarkdown P E jobId w)) = (ResultMarkdown, now w) # queries w"
    "sleeps (snd (pollLlamaParseMarkdown P E jobId w)) = sleeps w"
    "now (snd (pollLlamaParseMarkdown P E jobId w)) = now w + int (latency E (length (queries w)))"
    by (simp_all add: run)
  show ?thesis
    using run found fallback world by blast
qed

text \<open>
  The theorem at a first response 200 with the body \<^verbatim>\<open>{"markdown":"Hello"}\<close>: the call
  that begins at 1000 ms returns "Hello" at 1200 ms, after one request and no wait.
\<close>

theorem first_response_ready_witness:
  \<open>pollLlamaParseMarkdown sample_platform
      (scripted [\<lparr>status = 200, body = ''{"markdown":"Hello"}''\<rparr>]) (Str ''J1'') start
    = (Inr ''Hello'', \<lparr>now = 1200, queries = [(ResultMarkdown, 1000)], sleeps = 0, console = []\<rparr>)\<close>
proof -
  have first: \<open>reply (scripted [\<lparr>status = 200, body = ''{"markdown":"Hello"}''\<rparr>]) (length (queries start))
      = Responded \<lparr>status = 200, body = ''{"markdown":"Hello"}''\<rparr>\<close>
    by (simp add: scripted_def start_def)
  have success: \<open>ok \<lparr>status = 200, body = ''{"markdown":"Hello"}''\<rparr>\<close>
    by (simp add: ok_def)
  note run = first_response_ready_one_query [OF first success, of sample_platform \<open>Str ''J1''\<close>]
  show ?thesis
    unfolding run [THEN conjunct1]
    by (simp add: ready_payload_def markdown_of_def sample_platform_sel flat_parse_examples
          fetch_def start_def scripted_def)
qed


text \<open>
  Claim C9. A response of status 400 or 404, received before the deadline, whose body is
  not JSON or whose parsed body has no string under \<^verbatim>\<open>detail\<close>, has the empty message;
  the loop then ends at once with its own job error, this request being the last one
  and no wait having been made.
\<close>

theorem unreadable_error_body_is_permanent:
  assumes "now w - started < POLL_MAX_MS"
    and "reply E (length (queries w)) = Responded res"
    and "status res = 400 \<or> status res = 404"
    and "(\<exists>m. JSON_parse P (body res) = Inl m)
         \<or> (\<exists>j. JSON_parse P (body res) = Inr j \<and> (\<forall>m. opt_prop j ''detail'' \<noteq> Str m))"
  shows "error_message P res = []
       \<and> poll_while P E started w =
           (Inl (Error (''LlamaParse job error: '' @
              JSON_stringify P (coalesce (error_detail P res) (Str ''unknown'')))),
            snd (fetch E ResultMarkdown w))
       \<and> queries (snd (poll_while P E started w)) = (ResultMarkdown, now w) # queries w
       \<and> sleeps (snd (poll_while P E started w)) = sleeps w"
proof -
  have msg: "error_message P res = []"
    using assms(4)
    by (auto simp: error_message_def error_detail_def opt_prop_def split: js.splits)
  then have "\<not> still_processing (error_message P res)"
    by (simp add: not_still_processing_empty)
  with assms(1-3) msg show ?thesis
    using poll_while_job_error [of w started E res P] by auto
qed

theorem unreadable_error_body_witness:
  \<open>fst (poll_while sample_platform (scripted [\<lparr>status = 404, body = ''<html>Bad Gateway</html>''\<rparr>]) 1000 start)
     = Inl (Error ''LlamaParse job error: {}'')
   \<and> fst (poll_while sample_platform (scripted [\<lparr>status = 400, body = ''{"markdown":"Hello"}''\<rparr>]) 1000 start)
     = Inl (Error ''LlamaParse job error: {"markdown":"Hello"}'')\<close>
  using unreadable_error_body_is_permanent
          [of start 1000 \<open>scripted [\<lparr>status = 404, body = ''<html>Bad Gateway</html>''\<rparr>]\<close>
              \<open>\<lparr>status = 404, body = ''<html>Bad Gateway</html>''\<rparr>\<close> sample_platform]
        unreadable_error_body_is_permanent
          [of start 1000 \<open>scripted [\<lparr>status = 400, body = ''{"markdown":"Hello"}''\<rparr>]\<close>
              \<open>\<lparr>status = 400, body = ''{"markdown":"Hello"}''\<rparr>\<close> sample_platform]
  by (simp add: start_def scripted_def sample_platform_sel POLL_MAX_MS_def flat_parse_examples
        opt_prop_def error_detail_def coalesce_def)

section \<open>Submission\<close>

text \<open>
  Claim C5, as amended. For a submission whose response has a success status,
  \<^verbatim>\<open>llamaUploadFile\<close> and \<^verbatim>\<open>uploadToLlamaParse\<close> parse the body as JSON. If the body is not
  JSON the call fails with the SyntaxError of the parser. If it is an object the call
  returns the value under \<^verbatim>\<open>id\<close>, and returns undefined when there is no such property:
  the identifier is not checked. If it is the JSON null, \<^verbatim>\<open>llamaUploadFile\<close> returns
  undefined and \<^verbatim>\<open>uploadToLlamaParse\<close> fails with a TypeError.
\<close>

theorem submit_success_reads_id_unchecked:
  assumes "reply E (length (queries w)) = Responded res"
    and "ok res"
    and "present (llamaKey C)"
  shows "(\<forall>m. JSON_parse P (body res) = Inl m \<longrightarrow>
            fst (llamaUploadFile P E inp w) = Inl (SyntaxError m)
          \<and> fst (uploadToLlamaParse P C E inp w) = Inl (SyntaxError m))
       \<and> (\<forall>kvs v. JSON_parse P (body res) = Inr (Obj kvs) \<and> map_of kvs ''id'' = Some v \<longrightarrow>
            fst (llamaUploadFile P E inp w) = Inr v
          \<and> fst (uploadToLlamaParse P C E inp w) = Inr v)
       \<and> (\<forall>kvs. JSON_parse P (body res) = Inr (Obj kvs) \<and> map_of kvs ''id'' = None \<longrightarrow>
            fst (llamaUploadFile P E inp w) = Inr Undefined
          \<and> fst (uploadToLlamaParse P C E inp w) = Inr Undefined)
       \<and> (JSON_parse P (body res) = Inr Null \<longrightarrow>
            fst (llamaUploadFile P E inp w) = Inr Undefined
          \<and> fst (uploadToLlamaParse P C E inp w) = Inl (TypeError (null_read P)))"
  using assms
  by (auto simp: llamaUploadFile_def uploadToLlamaParse_def request_json_ok opt_prop_def fetch_def)

theorem submit_success_witness:
  \<open>fst (llamaUploadFile sample_platform (scripted [\<lparr>status = 200, body = ''{"id":"F1"}''\<rparr>]) sample_input start)
     = Inr (Str ''F1'')
   \<and> fst (uploadToLlamaParse sample_platform sample_config
            (scripted [\<lparr>status = 200, body = ''# Jane Doe''\<rparr>]) sample_input start)
     = Inl (SyntaxError ''Unexpected token'')\<close>
  using submit_success_reads_id_unchecked
          [of \<open>scripted [\<lparr>status = 200, body = ''{"id":"F1"}''\<rparr>]\<close> start
              \<open>\<lparr>status = 200, body = ''{"id":"F1"}''\<rparr>\<close> sample_config sample_platform sample_input]
        submit_success_reads_id_unchecked
          [of \<open>scripted [\<lparr>status = 200, body = ''# Jane Doe''\<rparr>]\<close> start
              \<open>\<lparr>status = 200, body = ''# Jane Doe''\<rparr>\<close> sample_config sample_platform sample_input]
  by (simp add: scripted_def start_def ok_def sample_config_def present_def sample_platform_sel
        flat_parse_examples)

text \<open>
  Claim C5 as it was stated fails: on a success response whose body is the JSON object
  \<^verbatim>\<open>{}\<close>, without an identifier, both submit functions return undefined and no error.
\<close>

theorem submit_missing_id_counterexample:
  \<open>fst (llamaUploadFile sample_platform (scripted [\<lparr>status = 200, body = ''{}''\<rparr>]) sample_input start)
     = Inr Undefined
   \<and> fst (uploadToLlamaParse sample_platform sample_config
            (scripted [\<lparr>status = 200, body = ''{}''\<rparr>]) sample_input start)
     = Inr Undefined\<close>
  by (simp add: llamaUploadFile_def uploadToLlamaParse_def request_json_def fetch_def scripted_def
        start_def ok_def sample_config_def present_def sample_platform_sel flat_parse_examples
        opt_prop_def)

text \<open>
  Claim C6, as amended. For a submission whose response has a status that is not a
  success, the submit function throws an Error after that one request, and the caller
  passes the error on without a second request or a wait. The message of
  \<^verbatim>\<open>llamaUploadFile\<close> carries the first 400 characters of the response body; the message
  of \<^verbatim>\<open>uploadToLlamaParse\<close> carries the whole body.
\<close>

theorem submit_failure_carries_body:
  assumes "reply E (length (queries w)) = Responded res"
    and "\<not> ok res"
  shows "(\<exists>w'. llamaUploadFile P E inp w =
              (Inl (Error (''LlamaExtract upload failed: '' @ take 400 (body res))), w')
            \<and> queries w' = (UploadFile, now w) # queries w \<and> sleeps w' = sleeps w)
       \<and> (present (llamaApiKey C) \<and> present (llamaAgentId C) \<longrightarrow>
            (\<exists>w'. parseResumeWithLlamaExtract P C E inp w =
                (Inl (Error (''LlamaExtract upload failed: '' @ take 400 (body res))), w')
              \<and> queries w' = (UploadFile, now w) # queries w \<and> sleeps w' = sleeps w))
       \<and> (present (llamaKey C) \<longrightarrow>
            (\<exists>w'. uploadToLlamaParse P C E inp w =
                (Inl (Error (''LlamaParse upload failed: '' @ body res)), w')
              \<and> queries w' = (Upload, now w) # queries w \<and> sleeps w' = sleeps w)
          \<and> (\<exists>w'. parseResumeWithLlamaParse P C E inp w =
                (Inl (Error (''LlamaParse upload failed: '' @ body res)), w')
              \<and> queries w' = (Upload, now w) # queries w \<and> sleeps w' = sleeps w))"
proof -
  have a: "llamaUploadFile P E inp w =
      (Inl (Error (''LlamaExtract upload failed: '' @ take 400 (body res))), snd (fetch E UploadFile w))"
    using assms by (simp add: llamaUploadFile_def request_json_not_ok)
  have b: "present (llamaKey C) \<Longrightarrow> uploadToLlamaParse P C E inp w =
      (Inl (Error (''LlamaParse upload failed: '' @ body res)), snd (fetch E Upload w))"
    using assms by (simp add: uploadToLlamaParse_def fetch_def)
  have c: "present (llamaApiKey C) \<Longrightarrow> present (llamaAgentId C) \<Longrightarrow>
      parseResumeWithLlamaExtract P C E inp w =
      (Inl (Error (''LlamaExtract upload failed: '' @ take 400 (body res))), snd (fetch E UploadFile w))"
    by (auto simp: parseResumeWithLlamaExtract_def a present_def split: option.splits)
  have d: "present (llamaKey C) \<Longrightarrow> parseResumeWithLlamaParse P C E inp w =
      (Inl (Error (''LlamaParse upload failed: '' @ body res)), snd (fetch E Upload w))"
    by (simp add: parseResumeWithLlamaParse_def b)
  show ?thesis using a b c d by simp
qed

theorem submit_failure_witness:
  \<open>fst (llamaUploadFile sample_platform
          (scripted [\<lparr>status = 500, body = replicate 401 (CHR ''x'')\<rparr>]) sample_input start)
     = Inl (Error (''LlamaExtract upload failed: '' @ replicate 400 (CHR ''x'')))\<close>
  using submit_failure_carries_body
          [of \<open>scripted [\<lparr>status = 500, body = replicate 401 (CHR ''x'')\<rparr>]\<close> start
              \<open>\<lparr>status = 500, body = replicate 401 (CHR ''x'')\<rparr>\<close> sample_platform sample_input
              sample_config]
  by (auto simp: scripted_def start_def ok_def)

text \<open>
  Claim C6 as it was stated fails on \<^verbatim>\<open>uploadToLlamaParse\<close>: on a response of status 500
  whose body is 401 characters long, the error carries all 401 characters.
\<close>

theorem upload_failure_not_truncated_counterexample:
  \<open>fst (uploadToLlamaParse sample_platform sample_config
          (scripted [\<lparr>status = 500, body = replicate 401 (CHR ''x'')\<rparr>]) sample_input start)
     = Inl (Error (''LlamaParse upload failed: '' @ replicate 401 (CHR ''x'')))
   \<and> length (replicate 401 (CHR ''x'')) > 400\<close>
  by (simp add: uploadToLlamaParse_def fetch_def scripted_def start_def ok_def sample_config_def
        present_def)

section \<open>The result normalizer\<close>

text \<open>
  Claim C7, as amended. \<^verbatim>\<open>extractMarkdown\<close> reads the \<^verbatim>\<open>parsed\<close> field of a result. When
  that field is a string holding a JSON object with a string under \<^verbatim>\<open>markdown\<close>, or is an
  object whose \<^verbatim>\<open>markdown\<close> is such a string, it returns the inner string, parsing one
  level only. When the field is an object whose \<^verbatim>\<open>markdown\<close> is any other string, it
  returns that string unchanged. On every other input it returns null; it never
  throws.
\<close>

theorem extractMarkdown_shapes:
  "(\<forall>s kvs m. opt_prop result ''parsed'' = Str s \<and> JSON_parse P s = Inr (Obj kvs)
        \<and> map_of kvs ''markdown'' = Some (Str m) \<longrightarrow> extractMarkdown P result = Str m)
 \<and> (\<forall>pf s kvs m. opt_prop result ''parsed'' = Obj pf \<and> map_of pf ''markdown'' = Some (Str s)
        \<and> JSON_parse P s = Inr (Obj kvs) \<and> map_of kvs ''markdown'' = Some (Str m)
        \<longrightarrow> extractMarkdown P result = Str m)
 \<and> (\<forall>pf s. opt_prop result ''parsed'' = Obj pf \<and> map_of pf ''markdown'' = Some (Str s)
        \<and> (\<nexists>kvs m. JSON_parse P s = Inr (Obj kvs) \<and> map_of kvs ''markdown'' = Some (Str m))
        \<longrightarrow> extractMarkdown P result = Str s)
 \<and> ((\<nexists>s kvs m. opt_prop result ''parsed'' = Str s \<and> JSON_parse P s = Inr (Obj kvs)
          \<and> map_of kvs ''markdown'' = Some (Str m))
      \<and> (\<nexists>pf s. opt_prop result ''parsed'' = Obj pf \<and> map_of pf ''markdown'' = Some (Str s))
        \<longrightarrow> extractMarkdown P result = Null)"
proof (intro conjI allI impI)
  fix s kvs m
  assume "opt_prop result ''parsed'' = Str s \<and> JSON_parse P s = Inr (Obj kvs)
        \<and> map_of kvs ''markdown'' = Some (Str m)"
  then show "extractMarkdown P result = Str m"
    by (simp add: extractMarkdown_def markdown_of_def)
next
  fix pf s kvs m
  assume "opt_prop result ''parsed'' = Obj pf \<and> map_of pf ''markdown'' = Some (Str s)
        \<and> JSON_parse P s = Inr (Obj kvs) \<and> map_of kvs ''markdown'' = Some (Str m)"
  then show "extractMarkdown P result = Str m"
    by (simp add: extractMarkdown_def markdown_of_def opt_prop_def)
next
  fix pf s
  assume h: "opt_prop result ''parsed'' = Obj pf \<and> map_of pf ''markdown'' = Some (Str s)
        \<and> (\<nexists>kvs m. JSON_parse P s = Inr (Obj kvs) \<and> map_of kvs ''markdown'' = Some (Str m))"
  show "extractMarkdown P result = Str s"
  proof (cases "JSON_parse P s")
    case (Inl e)
    with h show ?thesis by (simp add: extractMarkdown_def opt_prop_def)
  next
    case (Inr j)
    with h have "markdown_of j = None" by (simp add: markdown_of_none_iff)
    with h Inr show ?thesis by (simp add: extractMarkdown_def opt_prop_def)
  qed
next
  assume h: "(\<nexists>s kvs m. opt_prop result ''parsed'' = Str s \<and> JSON_parse P s = Inr (Obj kvs)
          \<and> map_of kvs ''markdown'' = Some (Str m))
      \<and> (\<nexists>pf s. opt_prop result ''parsed'' = Obj pf \<and> map_of pf ''markdown'' = Some (Str s))"
  have first: "(case opt_prop result ''parsed'' of
                 Str s \<Rightarrow> (case JSON_parse P s of Inr parsedObj \<Rightarrow> markdown_of parsedObj | Inl e \<Rightarrow> None)
               | _ \<Rightarrow> None) = None"
  proof (cases "opt_prop result ''parsed''")
    case (Str s)
    show ?thesis
    proof (cases "JSON_parse P s")
      case (Inl e)
      with Str show ?thesis by simp
    next
      case (Inr j)
      with h Str have "markdown_of j = None" by (simp add: markdown_of_none_iff)
      with Str Inr show ?thesis by simp
    qed
  qed simp_all
  have second: "\<nexists>s. opt_prop (opt_prop result ''parsed'') ''markdown'' = Str s"
  proof
    assume "\<exists>s. opt_prop (opt_prop result ''parsed'') ''markdown'' = Str s"
    then obtain s where s: "opt_prop (opt_prop result ''parsed'') ''markdown'' = Str s" by blast
    then obtain pf where pf: "opt_prop result ''parsed'' = Obj pf"
      by (cases "opt_prop result ''parsed''") (simp_all add: opt_prop_def)
    with s have "map_of pf ''markdown'' = Some (Str s)"
      by (simp add: opt_prop_def split: option.splits)
    with h pf show False by blast
  qed
  show "extractMarkdown P result = Null"
    using second by (simp add: extractMarkdown_def first split: js.splits)
qed

theorem extractMarkdown_witness:
  \<open>extractMarkdown sample_platform (Obj [(''parsed'', Obj [(''markdown'', Str ''# Jane Doe'')])])
     = Str ''# Jane Doe''
   \<and> extractMarkdown sample_platform (Obj [(''parsed'', Obj [(''markdown'', Str ''{"markdown":"Hello"}'')])])
     = Str ''Hello''
   \<and> extractMarkdown sample_platform (Obj [(''parsed'', Str ''{"markdown":"Hello"}'')])
     = Str ''Hello''
   \<and> extractMarkdown sample_platform (Obj [(''parsed'', Num 42)]) = Null\<close>
  using extractMarkdown_shapes
          [of \<open>Obj [(''parsed'', Obj [(''markdown'', Str ''# Jane Doe'')])]\<close> sample_platform]
        extractMarkdown_shapes
          [of \<open>Obj [(''parsed'', Obj [(''markdown'', Str ''{"markdown":"Hello"}'')])]\<close> sample_platform]
        extractMarkdown_shapes
          [of \<open>Obj [(''parsed'', Str ''{"markdown":"Hello"}'')]\<close> sample_platform]
        extractMarkdown_shapes
          [of \<open>Obj [(''parsed'', Num 42)]\<close> sample_platform]
  by (simp add: opt_prop_def sample_platform_sel flat_parse_examples)

text \<open>
  Claim C7 as it was stated fails: on the result that the client builds for a failed
  request, an object with an \<^verbatim>\<open>error\<close> field only, \<^verbatim>\<open>extractMarkdown\<close> returns null and not
  its input.
\<close>

theorem extractMarkdown_garbage_counterexample:
  \<open>extractMarkdown sample_platform (Obj [(''error'', Str ''LlamaParse job timed out'')]) = Null
   \<and> extractMarkdown sample_platform (Obj [(''error'', Str ''LlamaParse job timed out'')])
      \<noteq> Obj [(''error'', Str ''LlamaParse job timed out'')]\<close>
  by (simp add: extractMarkdown_def opt_prop_def)

section \<open>The request handler of the LlamaExtract function\<close>

text \<open>
  Claim C8. When the request is parsed, the input is loaded, the remote parse succeeds
  and the insert of the row then returns an error, the handler writes the line
  "Supabase insert error:" with that error to the console and answers with status 200,
  the parsed result, a null \<^verbatim>\<open>resumeId\<close> and the parser version.
\<close>

theorem insert_failure_still_200:
  assumes "method \<noteq> ''OPTIONS''"
    and "JSON_parse P (if safeBody rawBody = [] then ''{}'' else safeBody rawBody) = Inr req"
    and "loadResumeInput P C E req = Inr inp"
    and "parseResumeWithLlamaExtract P C E inp w = (Inr result, w1)"
    and "supabase C"
    and "truthy (ins_error (db_insert E (inserted_row req result)))"
  shows "\<exists>resp w2. serve P C E method rawBody w = (resp, w2)
           \<and> code resp = 200
           \<and> get_prop (content resp) ''parsed'' = result
           \<and> get_prop (content resp) ''resumeId'' = Null
           \<and> get_prop (content resp) ''parserVersion'' = Str PARSER_VERSION
           \<and> w2 = w1\<lparr>console := [Str ''Supabase insert error:'',
                                   ins_error (db_insert E (inserted_row req result))] # console w1\<rparr>"
  using assms
  by (simp add: serve_def handle_request_def respond_def success_body_def Let_def)

theorem insert_failure_witness:
  \<open>\<exists>resp w2.
      serve sample_platform sample_config
        (scripted [\<lparr>status = 200, body = ''{"id":"F1"}''\<rparr>,
                   \<lparr>status = 200, body = ''{"id":"J1"}''\<rparr>,
                   \<lparr>status = 200, body = ''{"status":"SUCCESS"}''\<rparr>,
                   \<lparr>status = 200, body = ''{"data":"Jane Doe"}''\<rparr>])
        ''POST'' ''{"text":"Jane Doe"}'' start = (resp, w2)
      \<and> code resp = 200
      \<and> get_prop (content resp) ''parsed'' =
          Obj [(''structured'', Str ''Jane Doe''), (''jobId'', Str ''J1''), (''source'', Str ''llamaextract'')]
      \<and> get_prop (content resp) ''resumeId'' = Null
      \<and> get_prop (content resp) ''parserVersion'' = Str ''llamaextract-http-v1''
      \<and> w2 = \<lparr>now = 1800,
               queries = [(JobResult, 1600), (JobStatus, 1400), (CreateJob, 1200), (UploadFile, 1000)],
               sleeps = 0,
               console = [[Str ''Supabase insert error:'',
                           Obj [(''message'', Str ''permission denied'')]]]\<rparr>\<close>
proof -
  have parse: \<open>parseResumeWithLlamaExtract sample_platform sample_config
          (scripted [\<lparr>status = 200, body = ''{"id":"F1"}''\<rparr>,
                     \<lparr>status = 200, body = ''{"id":"J1"}''\<rparr>,
                     \<lparr>status = 200, body = ''{"status":"SUCCESS"}''\<rparr>,
                     \<lparr>status = 200, body = ''{"data":"Jane Doe"}''\<rparr>])
          \<lparr>buffer = ''Jane Doe'', filename = ''resume.txt'', contentType = ''text/plain''\<rparr> start
     = (Inr (Obj [(''structured'', Str ''Jane Doe''), (''jobId'', Str ''J1''),
                  (''source'', Str ''llamaextract'')]),
        \<lparr>now = 1800,
         queries = [(JobResult, 1600), (JobStatus, 1400), (CreateJob, 1200), (UploadFile, 1000)],
         sleeps = 0, console = []\<rparr>)\<close>
    by (simp add: parseResumeWithLlamaExtract_def sample_config_def present_def
        llamaUploadFile_def llamaCreateJob_def llamaPollJob_def llamaGetResult_def request_json_def
        fetch_def scripted_def start_def ok_def sample_platform_sel flat_parse_examples opt_prop_def
        coalesce_def extract_while.simps)
  have req: \<open>JSON_parse sample_platform
        (if safeBody ''{"text":"Jane Doe"}'' = [] then ''{}'' else safeBody ''{"text":"Jane Doe"}'')
      = Inr (Obj [(''text'', Str ''Jane Doe'')])\<close>
    by (simp add: safeBody_def sample_platform_sel flat_parse_examples)
  have load: \<open>loadResumeInput sample_platform sample_config
          (scripted [\<lparr>status = 200, body = ''{"id":"F1"}''\<rparr>,
                     \<lparr>status = 200, body = ''{"id":"J1"}''\<rparr>,
                     \<lparr>status = 200, body = ''{"status":"SUCCESS"}''\<rparr>,
                     \<lparr>status = 200, body = ''{"data":"Jane Doe"}''\<rparr>])
          (Obj [(''text'', Str ''Jane Doe'')])
     = Inr \<lparr>buffer = ''Jane Doe'', filename = ''resume.txt'', contentType = ''text/plain''\<rparr>\<close>
    by (simp add: loadResumeInput_def sample_platform_sel trim_empty_iff is_space_examples)
  show ?thesis
    using insert_failure_still_200 [OF _ req load parse, of \<open>''POST''\<close>]
    by (simp add: sample_config_sel scripted_insert PARSER_VERSION_def)
qed

section \<open>Loading the input of a request\<close>

text \<open>
  Claim C10, as amended. For every request body that is not null: when its \<^verbatim>\<open>text\<close> is
  absent, empty, otherwise falsy or made of white space only, \<^verbatim>\<open>loadResumeInput\<close> does
  not use it; it fails with "Supabase client not initialized" when there is no client,
  fails with "Provide either `text` or (`bucket` and `filePath`)" when there is a client
  and the bucket or the file path is missing, and whatever input it returns holds the
  bytes of the downloaded file. When \<^verbatim>\<open>text\<close> is a string with a character that is not
  white space, the input is the encoded text, named resume.txt, of type text/plain.
\<close>

theorem loadResumeInput_text_or_storage:
  assumes "\<not> nullish req"
  shows "((\<not> truthy (get_prop req ''text'')
            \<or> (\<exists>t. get_prop req ''text'' = Str t \<and> (\<forall>c\<in>set t. is_space c))) \<longrightarrow>
            (\<not> supabase C \<longrightarrow>
               loadResumeInput P C E req = Inl (Error ''Supabase client not initialized''))
          \<and> (supabase C \<and> (\<not> truthy (get_prop req ''bucket'') \<or> \<not> truthy (get_prop req ''filePath'')) \<longrightarrow>
               loadResumeInput P C E req = Inl (Error ''Provide either `text` or (`bucket` and `filePath`)''))
          \<and> (\<forall>inp. loadResumeInput P C E req = Inr inp \<longrightarrow>
               (\<exists>data. dl_data (storage E (get_prop req ''bucket'') (get_prop req ''filePath'')) = Some data
                   \<and> buffer inp = blob_bytes data)))
       \<and> (\<forall>t. get_prop req ''text'' = Str t \<and> (\<exists>c\<in>set t. \<not> is_space c) \<longrightarrow>
            loadResumeInput P C E req =
              Inr \<lparr>buffer = encode P t, filename = ''resume.txt'', contentType = ''text/plain''\<rparr>)"
proof (intro conjI impI allI)
  fix t
  assume "get_prop req ''text'' = Str t \<and> (\<exists>c\<in>set t. \<not> is_space c)"
  moreover from this have "t \<noteq> []" by auto
  ultimately show "loadResumeInput P C E req =
      Inr \<lparr>buffer = encode P t, filename = ''resume.txt'', contentType = ''text/plain''\<rparr>"
    using assms by (auto simp: loadResumeInput_def trim_empty_iff)
next
  assume h: "\<not> truthy (get_prop req ''text'')
            \<or> (\<exists>t. get_prop req ''text'' = Str t \<and> (\<forall>c\<in>set t. is_space c))"
  then have none: "(if truthy (get_prop req ''text'')
               then (case get_prop req ''text'' of
                       Str t \<Rightarrow> Inr (if length (trim t) > 0 then Some t else None)
                     | _ \<Rightarrow> Inl (TypeError (null_read P)))
               else Inr None) = Inr None"
    by (auto simp: trim_empty_iff)
  {
    assume "\<not> supabase C"
    then show "loadResumeInput P C E req = Inl (Error ''Supabase client not initialized'')"
      using assms unfolding loadResumeInput_def none by simp
  next
    assume "supabase C \<and> (\<not> truthy (get_prop req ''bucket'') \<or> \<not> truthy (get_prop req ''filePath''))"
    then show "loadResumeInput P C E req = Inl (Error ''Provide either `text` or (`bucket` and `filePath`)'')"
      using assms unfolding loadResumeInput_def none by auto
  next
    fix inp
    assume "loadResumeInput P C E req = Inr inp"
    then show "\<exists>data. dl_data (storage E (get_prop req ''bucket'') (get_prop req ''filePath'')) = Some data
                   \<and> buffer inp = blob_bytes data"
      using assms unfolding loadResumeInput_def none
      by (auto simp: Let_def split: if_splits option.splits sum.splits)
  }
qed

theorem loadResumeInput_witness:
  \<open>loadResumeInput sample_platform sample_config (scripted []) (Obj [(''text'', Str ''Jane Doe'')])
     = Inr \<lparr>buffer = ''Jane Doe'', filename = ''resume.txt'', contentType = ''text/plain''\<rparr>
   \<and> loadResumeInput sample_platform sample_config (scripted []) (Obj [(''text'', Str ''  '')])
     = Inl (Error ''Provide either `text` or (`bucket` and `filePath`)'')\<close>
  using loadResumeInput_text_or_storage
          [of \<open>Obj [(''text'', Str ''Jane Doe'')]\<close> sample_config sample_platform \<open>scripted []\<close>]
        loadResumeInput_text_or_storage
          [of \<open>Obj [(''text'', Str ''  '')]\<close> sample_config sample_platform \<open>scripted []\<close>]
  by (simp add: sample_config_def sample_platform_sel is_space_examples)

text \<open>
  Claim C10 as it was stated fails when the function runs without a Supabase client: a
  request with no text, no bucket and no file path then fails with "Supabase client not
  initialized" and not with the error the claim names.
\<close>

theorem loadResumeInput_no_client_counterexample:
  \<open>loadResumeInput sample_platform (sample_config\<lparr>supabase := False\<rparr>) (scripted []) (Obj [])
     = Inl (Error ''Supabase client not initialized'')
   \<and> Error ''Supabase client not initialized'' \<noteq> Error ''Provide either `text` or (`bucket` and `filePath`)''\<close>
  by (simp add: loadResumeInput_def sample_config_def)

end
